theory Spec2Isabelle
  imports Complex_Main "HOL-Library.AList"
begin

section \<open>Python values and exceptions\<close>

text \<open>
  The two scripts build and pass around plain Python values: numbers, strings, lists and
  dictionaries with string keys. A dictionary is an association list in insertion order
  (Python dictionaries keep it); a Python \<open>float\<close> is read as a real number, which is
  exact for everything the code does with one (it tests it for truth and passes it on;
  \<open>-0.0\<close> is zero, and NaN and the infinities have no counterpart here).
\<close>

datatype pyval =
    PNone
  | PBool bool
  | PInt int
  | PFloat real
  | PStr string
  | PList "pyval list"
  | PDict "(string \<times> pyval) list"

type_synonym pydict = "(string \<times> pyval) list"

text \<open>
  The exceptions that can travel through the code. \<open>IndexError\<close> and \<open>KeyError\<close> are
  raised by the code's own subscripts; the others are raised by the libraries and remote
  services the code calls, and carry their message.
\<close>

datatype py_error =
    IndexError
  | KeyError string
  | InvalidArgument string
  | EmbeddingServiceError string
  | StoreQueryError string
  | StoreWriteError string
  | SetupError string

text \<open>\<open>t[i]\<close> for a tuple or list \<open>t\<close> and an index \<open>i \<ge> 0\<close>.\<close>

definition subscript :: "'a list \<Rightarrow> nat \<Rightarrow> py_error + 'a" where
  "subscript t i = (if i < length t then Inr (t ! i) else Inl IndexError)"

text \<open>\<open>d[k]\<close> for a dictionary \<open>d\<close>, and the assignment \<open>d[k] = v\<close>.\<close>

definition getitem :: "pydict \<Rightarrow> string \<Rightarrow> py_error + pyval" where
  "getitem d k = (case map_of d k of None \<Rightarrow> Inl (KeyError k) | Some v \<Rightarrow> Inr v)"

definition setitem :: "pydict \<Rightarrow> string \<Rightarrow> pyval \<Rightarrow> pydict" where
  "setitem d k v = AList.update k v d"

section \<open>The filter of the hybrid search: \<open>create_filter\<close>\<close>

text \<open>
  Truth value testing, as \<open>if year_range:\<close> and \<open>if rating:\<close> do it. The arguments may be
  absent (\<open>None\<close>). A tuple is true when it is not empty, a float when it is not zero.
\<close>

fun truthy_tuple :: "int list option \<Rightarrow> bool" where
  "truthy_tuple None = False"
| "truthy_tuple (Some t) = (t \<noteq> [])"

fun truthy_float :: "real option \<Rightarrow> bool" where
  "truthy_float None = False"
| "truthy_float (Some x) = (x \<noteq> 0)"

definition year_field :: string where "year_field = ''Released_Year''"
definition rating_field :: string where "rating_field = ''IMDB_Rating''"
definition title_field :: string where "title_field = ''Series_Title''"

text \<open>
  The three \<open>if\<close> statements of \<open>create_filter\<close>, each taking the list
  \<open>filter_operations\<close> built so far and returning it extended or unchanged. \<open>None\<close> is
  false. Only the first statement can raise: \<open>year_range[1]\<close> on a tuple of one element.
\<close>

fun year_step :: "int list option \<Rightarrow> pyval list \<Rightarrow> py_error + pyval list" where
  "year_step None filter_operations = Inr filter_operations"
| "year_step (Some year_range) filter_operations =
     (if truthy_tuple (Some year_range) then
        (case subscript year_range 0 of
           Inl e \<Rightarrow> Inl e
         | Inr lo \<Rightarrow>
             (case subscript year_range 1 of
                Inl e \<Rightarrow> Inl e
              | Inr hi \<Rightarrow>
                  Inr (filter_operations @
                    [PDict [(''min'', PInt lo), (''max'', PInt hi),
                            (''inclusive_min'', PBool True), (''inclusive_max'', PBool True),
                            (''field'', PStr year_field)]])))
      else Inr filter_operations)"

fun rating_step :: "real option \<Rightarrow> pyval list \<Rightarrow> pyval list" where
  "rating_step None filter_operations = filter_operations"
| "rating_step (Some rating) filter_operations =
     (if truthy_float (Some rating) then
        filter_operations @
          [PDict [(''min'', PFloat rating), (''inclusive_min'', PBool False),
                  (''field'', PStr rating_field)]]
      else filter_operations)"

fun title_step :: "bool \<Rightarrow> string \<Rightarrow> pyval list \<Rightarrow> pyval list" where
  "title_step search_in_title title filter_operations =
     (if search_in_title then
        filter_operations @ [PDict [(''match_phrase'', PStr title), (''field'', PStr title_field)]]
      else filter_operations)"

text \<open>
  \<open>create_filter(year_range, rating, search_in_title, title)\<close>. The decorator
  \<open>st.cache_resource\<close> only memoises the call and is left out.
\<close>

definition create_filter ::
  "int list option \<Rightarrow> real option \<Rightarrow> bool \<Rightarrow> string \<Rightarrow> py_error + pyval" where
  "create_filter year_range rating search_in_title title =
     (case year_step year_range [] of
        Inl e \<Rightarrow> Inl e
      | Inr ops1 \<Rightarrow>
          Inr (PDict (setitem [] ''query''
                 (PDict [(''conjuncts'',
                    PList (title_step search_in_title title (rating_step rating ops1)))]))))"

text \<open>Reading a filter back: \<open>f["query"]["conjuncts"]\<close>, and the key \<open>k\<close> of one clause.\<close>

fun conjuncts_of :: "pyval \<Rightarrow> pyval list option" where
  "conjuncts_of (PDict f) =
     (case map_of f ''query'' of
        Some (PDict q) \<Rightarrow>
          (case map_of q ''conjuncts'' of Some (PList cs) \<Rightarrow> Some cs | _ \<Rightarrow> None)
      | _ \<Rightarrow> None)"
| "conjuncts_of _ = None"

fun clause_get :: "pyval \<Rightarrow> string \<Rightarrow> pyval option" where
  "clause_get (PDict c) k = map_of c k"
| "clause_get _ k = None"

section \<open>The hybrid search: \<open>search_couchbase\<close>\<close>

text \<open>
  The remote services are arguments of the code (\<open>embedding_client\<close>, \<open>db_scope\<close>), and
  they are arguments of the model: a call takes the state \<open>'w\<close> of the outside world and
  returns its outcome, an exception or a value, with the world after the call.
  \<open>embedding_client\<close> stands for \<open>client.embeddings.create(input=..., model=...)\<close> and returns
  the \<open>embedding\<close> of every element of \<open>response.data\<close>; \<open>db_scope\<close> stands for
  \<open>db_scope.search(index_name, request, options)\<close>.
\<close>

type_synonym 'w embedding_client = "pyval \<Rightarrow> string \<Rightarrow> 'w \<Rightarrow> (py_error + pyval list) \<times> 'w"

definition EMBEDDING_MODEL :: string where
  "EMBEDDING_MODEL = ''text-embedding-3-small''"

text \<open>
  \<open>generate_embeddings(client, input_data)\<close>, with the module's global \<open>EMBEDDING_MODEL\<close>
  as an argument (the two scripts set it differently). \<open>response.data[0]\<close> raises on an
  empty list.
\<close>

definition generate_embeddings ::
  "string \<Rightarrow> 'w embedding_client \<Rightarrow> pyval \<Rightarrow> 'w \<Rightarrow> (py_error + pyval) \<times> 'w" where
  "generate_embeddings model client input_data w =
     (case client input_data model w of
        (Inl e, w') \<Rightarrow> (Inl e, w')
      | (Inr data, w') \<Rightarrow> (subscript data 0, w'))"

text \<open>The objects of the Couchbase SDK that the code builds and reads.\<close>

datatype vector_query = VectorQuery string pyval int
datatype vector_search = VectorSearch "vector_query list"
datatype search_request = SearchRequest vector_search
datatype search_options = SearchOptions (limit: int) (requested_fields: "string list") (raw: pyval)

datatype search_row = SearchRow (row_fields: pyval) (row_score: real)

text \<open>
  \<open>search_iter.rows()\<close> is a generator: it yields a row and goes on, ends, or raises. The
  search has a limit, so the generator is finite; what it will yield is taken as settled
  when the search call returns.
\<close>

datatype row_iter = Done | Raise py_error | Yield search_row row_iter

type_synonym 'w db_scope =
  "string \<Rightarrow> search_request \<Rightarrow> search_options \<Rightarrow> 'w \<Rightarrow> (py_error + row_iter) \<times> 'w"

text \<open>
  The constructor \<open>VectorQuery(field_name, vector, num_candidates)\<close> belongs to the SDK, not
  to the repository, and may refuse its arguments. What it refuses is an argument of the
  model: \<open>Some e\<close> when it raises \<open>e\<close>, \<open>None\<close> when it accepts.
\<close>

type_synonym vector_query_check = "string \<Rightarrow> pyval \<Rightarrow> int \<Rightarrow> py_error option"

text \<open>The loop \<open>for row in search_iter.rows(): docs_with_score.append((row.fields, score))\<close>.\<close>

fun parse_rows :: "row_iter \<Rightarrow> (pyval \<times> real) list \<Rightarrow> py_error + (pyval \<times> real) list" where
  "parse_rows Done docs_with_score = Inr docs_with_score"
| "parse_rows (Raise e) docs_with_score = Inl e"
| "parse_rows (Yield row rest) docs_with_score =
     parse_rows rest (docs_with_score @ [(row_fields row, row_score row)])"

text \<open>
  \<open>search_couchbase(db_scope, index_name, embedding_client, embedding_key, search_text, k,
  fields, search_options)\<close>. The handler \<open>except Exception as e: raise e\<close> raises the
  exception it caught.
\<close>

definition search_couchbase ::
  "vector_query_check \<Rightarrow> 'w db_scope \<Rightarrow> string \<Rightarrow> 'w embedding_client \<Rightarrow> string \<Rightarrow> string \<Rightarrow> int \<Rightarrow>
     string list \<Rightarrow> pyval \<Rightarrow> 'w \<Rightarrow> (py_error + (pyval \<times> real) list) \<times> 'w" where
  "search_couchbase vq_check db_scope index_name embedding_client embedding_key search_text k
       fields_arg search_options_arg w =
     (case generate_embeddings EMBEDDING_MODEL embedding_client (PStr search_text) w of
        (Inl e, w1) \<Rightarrow> (Inl e, w1)
      | (Inr search_embedding, w1) \<Rightarrow>
          (case vq_check embedding_key search_embedding k of
             Some e \<Rightarrow> (Inl e, w1)
           | None \<Rightarrow>
               (case db_scope index_name
                       (SearchRequest (VectorSearch [VectorQuery embedding_key search_embedding k]))
                       (SearchOptions k fields_arg search_options_arg) w1 of
                  (Inl e, w2) \<Rightarrow> (Inl e, w2)
                | (Inr search_iter, w2) \<Rightarrow> (parse_rows search_iter [], w2))))"

text \<open>What a generator yields when it runs to its end, or the exception it raises.\<close>

fun rows_of :: "row_iter \<Rightarrow> py_error + search_row list" where
  "rows_of Done = Inr []"
| "rows_of (Raise e) = Inl e"
| "rows_of (Yield row rest) = (case rows_of rest of Inl e \<Rightarrow> Inl e | Inr rows \<Rightarrow> Inr (row # rows))"

section \<open>The ingestion script\<close>

text \<open>
  \<open>EMBEDDING_MODEL = os.getenv("EMBEDDING_MODEL")\<close>, replaced by the default when it is
  unset or empty.
\<close>

definition ingest_embedding_model :: "string option \<Rightarrow> string" where
  "ingest_embedding_model env_value =
     (case env_value of
        None \<Rightarrow> ''text-embedding-3-small''
      | Some m \<Rightarrow> (if m = [] then ''text-embedding-3-small'' else m))"

text \<open>What \<open>print\<close> writes: a message, or a message followed by an exception.\<close>

datatype printed = Message string | ErrorMessage string py_error

text \<open>
  The script's outside world: the OpenAI client, \<open>uuid.uuid4().hex\<close>,
  \<open>collection.upsert(doc_id, row)\<close>, \<open>print\<close>, and the lines of the \<open>try\<close> block before the
  loop (connecting to the cluster, reading and cleaning the CSV file), which either raise
  or give \<open>data_in_dict\<close>.
\<close>

record 'w ingest_env =
  client :: "'w embedding_client"
  uuid4_hex :: "'w \<Rightarrow> string \<times> 'w"
  collection_upsert :: "string \<Rightarrow> pydict \<Rightarrow> 'w \<Rightarrow> (py_error + unit) \<times> 'w"
  print_out :: "printed \<Rightarrow> 'w \<Rightarrow> 'w"
  load_data :: "'w \<Rightarrow> (py_error + pydict list) \<times> 'w"

text \<open>
  The body of the loop, for one row:
  \<^verbatim>\<open>
  row["Overview_embedding"] = generate_embeddings(client, row["Overview"])
  doc_id = uuid.uuid4().hex
  collection.upsert(doc_id, row)
  \<close>
\<close>

definition ingest_row ::
  "'w ingest_env \<Rightarrow> string \<Rightarrow> pydict \<Rightarrow> 'w \<Rightarrow> (py_error + unit) \<times> 'w" where
  "ingest_row env model row w =
     (case getitem row ''Overview'' of
        Inl e \<Rightarrow> (Inl e, w)
      | Inr overview \<Rightarrow>
          (case generate_embeddings model (client env) overview w of
             (Inl e, w1) \<Rightarrow> (Inl e, w1)
           | (Inr embedding, w1) \<Rightarrow>
               (case uuid4_hex env w1 of
                  (doc_id, w2) \<Rightarrow>
                    collection_upsert env doc_id (setitem row ''Overview_embedding'' embedding) w2)))"

text \<open>
  \<open>for row in tqdm(data_in_dict)\<close>: no statement of the loop catches an exception, so the
  first one leaves the loop.
\<close>

fun ingest_rows ::
  "'w ingest_env \<Rightarrow> string \<Rightarrow> pydict list \<Rightarrow> 'w \<Rightarrow> (py_error + unit) \<times> 'w" where
  "ingest_rows env model [] w = (Inr (), w)"
| "ingest_rows env model (row # rows) w =
     (case ingest_row env model row w of
        (Inl e, w') \<Rightarrow> (Inl e, w')
      | (Inr u, w') \<Rightarrow> ingest_rows env model rows w')"

text \<open>
  The \<open>try\<close> block and its handler \<open>except Exception as e: print("Error while ingesting
  data", e)\<close>. The script returns nothing; its effect is the world it leaves.
\<close>

definition ingest_script :: "'w ingest_env \<Rightarrow> string \<Rightarrow> 'w \<Rightarrow> 'w" where
  "ingest_script env model w =
     (case load_data env w of
        (Inl e, w1) \<Rightarrow> print_out env (ErrorMessage ''Error while ingesting data'' e) w1
      | (Inr data_in_dict, w1) \<Rightarrow>
          (case ingest_rows env model data_in_dict
                  (print_out env (Message ''Ingesting Data...'') w1) of
             (Inl e, w2) \<Rightarrow> print_out env (ErrorMessage ''Error while ingesting data'' e) w2
           | (Inr u, w2) \<Rightarrow> w2))"

section \<open>Reference environments\<close>

text \<open>
  For the search: a world that is the log of the remote calls made so far, with services
  that answer by a fixed function of their arguments.
\<close>

datatype remote_call =
    EmbeddingsCreate pyval string
  | ScopeSearch string search_request search_options

definition logged_client ::
  "(pyval \<Rightarrow> string \<Rightarrow> py_error + pyval list) \<Rightarrow> remote_call list embedding_client" where
  "logged_client answer input_data model calls =
     (answer input_data model, calls @ [EmbeddingsCreate input_data model])"

definition logged_scope ::
  "(string \<Rightarrow> search_request \<Rightarrow> search_options \<Rightarrow> py_error + row_iter) \<Rightarrow> remote_call list db_scope" where
  "logged_scope answer index_name request options calls =
     (answer index_name request options, calls @ [ScopeSearch index_name request options])"

text \<open>
  For the ingestion: a world made of the collection, the count of ids drawn, the printed
  output and the inputs sent to the embedding service.
\<close>

record store_world =
  collection :: "(string \<times> pydict) list"
  uuids_drawn :: nat
  stdout :: "printed list"
  embedded_inputs :: "pyval list"

text \<open>
  Modelled from the spec: the Document Store Adapter and the id generator are outside the
  repository. The spec gives the store's \<open>upsert\<close> as insert-or-update keyed by document
  id, failing with a write error; \<open>uuid4\<close> is a supply \<open>ids\<close> of identifiers, the \<open>n\<close>-th
  draw giving \<open>ids n\<close>. The embedding service answers by the function \<open>embed_fn\<close>, the
  store refuses a write when \<open>upsert_error\<close> says so and then writes nothing, and
  \<open>source\<close> is what the lines before the loop give, after \<open>connect_to_couchbase\<close> has
  printed its message (its first statement, and the first of the \<open>try\<close> block).
\<close>

definition store_env ::
  "(pyval \<Rightarrow> string \<Rightarrow> py_error + pyval list) \<Rightarrow> (nat \<Rightarrow> string) \<Rightarrow>
     (string \<Rightarrow> pydict \<Rightarrow> py_error option) \<Rightarrow> (py_error + pydict list) \<Rightarrow> store_world ingest_env" where
  "store_env embed_fn ids upsert_error source =
     \<lparr> client = (\<lambda>input_data model w.
          (embed_fn input_data model, w\<lparr>embedded_inputs := embedded_inputs w @ [input_data]\<rparr>)),
       uuid4_hex = (\<lambda>w. (ids (uuids_drawn w), w\<lparr>uuids_drawn := Suc (uuids_drawn w)\<rparr>)),
       collection_upsert = (\<lambda>doc_id doc w.
          (case upsert_error doc_id doc of
             Some e \<Rightarrow> (Inl e, w)
           | None \<Rightarrow> (Inr (), w\<lparr>collection := AList.update doc_id doc (collection w)\<rparr>))),
       print_out = (\<lambda>p w. w\<lparr>stdout := stdout w @ [p]\<rparr>),
       load_data = (\<lambda>w.
          (source, w\<lparr>stdout := stdout w @ [Message ''Connecting to couchbase...'']\<rparr>)) \<rparr>"

text \<open>
  The document that line 86 of the script makes of a row when the embedding service answers
  by the function \<open>embed_fn\<close>.
\<close>

definition embedded_row ::
  "(pyval \<Rightarrow> string \<Rightarrow> py_error + pyval list) \<Rightarrow> string \<Rightarrow> pydict \<Rightarrow> py_error + pydict" where
  "embedded_row embed_fn model row =
     (case getitem row ''Overview'' of
        Inl e \<Rightarrow> Inl e
      | Inr overview \<Rightarrow>
          (case embed_fn overview model of
             Inl e \<Rightarrow> Inl e
           | Inr data \<Rightarrow>
               (case subscript data 0 of
                  Inl e \<Rightarrow> Inl e
                | Inr embedding \<Rightarrow> Inr (setitem row ''Overview_embedding'' embedding))))"

section \<open>The meaning of a predicate\<close>

text \<open>
  Modelled from the spec: the evaluation of a predicate is the store's and is outside the
  repository. The spec gives the clauses of a predicate as combined by AND, and a
  numeric range as a lower and an upper bound, each inclusive or exclusive by its flag and
  each optional (a bound given without its flag is taken as the store takes it: the lower
  one inclusive, the upper one exclusive). \<open>range_admits c x\<close> says that the range clause
  \<open>c\<close> lets the number \<open>x\<close> through; \<open>predicate_matches m f d\<close> says that the filter \<open>f\<close>
  matches the document \<open>d\<close> when \<open>m\<close> decides each clause.
\<close>

fun number_of :: "pyval \<Rightarrow> real option" where
  "number_of (PInt i) = Some (of_int i)"
| "number_of (PFloat x) = Some x"
| "number_of _ = None"

definition lower_bound_admits :: "pyval \<Rightarrow> real \<Rightarrow> bool" where
  "lower_bound_admits c x =
     (case clause_get c ''min'' of
        None \<Rightarrow> True
      | Some b \<Rightarrow>
          (case number_of b of
             None \<Rightarrow> False
           | Some lo \<Rightarrow> (if clause_get c ''inclusive_min'' = Some (PBool False) then lo < x else lo \<le> x)))"

definition upper_bound_admits :: "pyval \<Rightarrow> real \<Rightarrow> bool" where
  "upper_bound_admits c x =
     (case clause_get c ''max'' of
        None \<Rightarrow> True
      | Some b \<Rightarrow>
          (case number_of b of
             None \<Rightarrow> False
           | Some hi \<Rightarrow> (if clause_get c ''inclusive_max'' = Some (PBool True) then x \<le> hi else x < hi)))"

definition range_admits :: "pyval \<Rightarrow> real \<Rightarrow> bool" where
  "range_admits c x = (lower_bound_admits c x \<and> upper_bound_admits c x)"

definition predicate_matches :: "(pyval \<Rightarrow> 'd \<Rightarrow> bool) \<Rightarrow> pyval \<Rightarrow> 'd \<Rightarrow> bool" where
  "predicate_matches m f d =
     (case conjuncts_of f of None \<Rightarrow> False | Some cs \<Rightarrow> list_all (\<lambda>c. m c d) cs)"

section \<open>Properties of \<open>create_filter\<close>\<close>

text \<open>
  Each step appends to the list it is given, so the conjuncts of a filter are the year
  clause, the rating clause and the title clause, in this order, each present or not.
\<close>

lemma rating_step_append: "rating_step rating ops = ops @ rating_step rating []"
  by (cases rating) simp_all

lemma title_step_append: "title_step search_in_title title ops = ops @ title_step search_in_title title []"
  by simp

lemma year_step_falsy:
  "\<not> truthy_tuple year_range \<Longrightarrow> year_step year_range ops = Inr ops"
  by (cases year_range) simp_all

lemma year_step_pair:
  "year_step (Some (lo # hi # others)) ops =
     Inr (ops @ [PDict [(''min'', PInt lo), (''max'', PInt hi),
                        (''inclusive_min'', PBool True), (''inclusive_max'', PBool True),
                        (''field'', PStr ''Released_Year'')]])"
  by (simp add: subscript_def year_field_def)

lemma year_step_single: "year_step (Some [y]) ops = Inl IndexError"
  by (simp add: subscript_def)

lemma create_filter_falsy:
  "\<not> truthy_tuple year_range \<Longrightarrow>
   create_filter year_range rating search_in_title title =
     Inr (PDict [(''query'', PDict [(''conjuncts'',
       PList (rating_step rating [] @ title_step search_in_title title []))])])"
  unfolding create_filter_def setitem_def
  by (subst title_step_append) (simp add: year_step_falsy del: title_step.simps rating_step.simps)

lemma create_filter_pair:
  "create_filter (Some (lo # hi # others)) rating search_in_title title =
     Inr (PDict [(''query'', PDict [(''conjuncts'',
       PList (PDict [(''min'', PInt lo), (''max'', PInt hi),
                     (''inclusive_min'', PBool True), (''inclusive_max'', PBool True),
                     (''field'', PStr ''Released_Year'')]
              # rating_step rating [] @ title_step search_in_title title []))])])"
  unfolding create_filter_def setitem_def year_step_pair
  by (subst title_step_append, subst rating_step_append)
     (simp del: title_step.simps rating_step.simps)

lemma create_filter_single:
  "create_filter (Some [y]) rating search_in_title title = Inl IndexError"
  unfolding create_filter_def year_step_single by simp

lemma tuple_cases:
  "\<not> truthy_tuple year_range \<or> (\<exists>y. year_range = Some [y]) \<or>
   (\<exists>lo hi others. year_range = Some (lo # hi # others))"
proof (cases year_range)
  case None
  then show ?thesis by simp
next
  case (Some t)
  show ?thesis
  proof (cases t)
    case Nil
    with Some show ?thesis by simp
  next
    case (Cons lo t')
    with Some show ?thesis by (cases t') simp_all
  qed
qed


lemma title_step_cases:
  "title_step search_in_title title [] = [] \<or>
   title_step search_in_title title [] =
     [PDict [(''match_phrase'', PStr title), (''field'', PStr ''Series_Title'')]]"
  by (simp add: title_field_def)

lemma rating_step_zero: "rating_step (Some 0) ops = rating_step None ops"
  by simp

text \<open>
  Claim C2. For every year range \<open>(lo, hi)\<close>, also an inverted one, \<open>create_filter\<close> succeeds
  and the first conjunct of its filter is the range on \<open>Released_Year\<close> with \<open>min = lo\<close>,
  \<open>max = hi\<close> and both bounds inclusive.
\<close>

theorem create_filter_year_range:
  "\<exists>rest. create_filter (Some [lo, hi]) rating search_in_title title =
     Inr (PDict [(''query'', PDict [(''conjuncts'',
        PList (PDict [(''min'', PInt lo), (''max'', PInt hi),
                      (''inclusive_min'', PBool True), (''inclusive_max'', PBool True),
                      (''field'', PStr ''Released_Year'')] # rest))])])"
  unfolding create_filter_pair by blast

text \<open>The inverted range \<open>(2024, 1900)\<close> is accepted.\<close>

theorem create_filter_year_range_witness:
  "create_filter (Some [2024, 1900]) None False [] =
     Inr (PDict [(''query'', PDict [(''conjuncts'',
        PList [PDict [(''min'', PInt 2024), (''max'', PInt 1900),
                      (''inclusive_min'', PBool True), (''inclusive_max'', PBool True),
                      (''field'', PStr ''Released_Year'')]])])])"
  using create_filter_year_range [of 2024 1900 None False "[]"]
  by (simp add: create_filter_pair)

text \<open>
  Claim C3, as stated, fails for the rating \<open>0.0\<close>: the rating is tested for truth, zero is
  false, and no rating clause is emitted.
\<close>

theorem create_filter_rating_zero_counterexample:
  "create_filter None (Some 0) False [] =
     Inr (PDict [(''query'', PDict [(''conjuncts'', PList [])])])"
  by (simp add: create_filter_falsy)

text \<open>
  Claim C3, amended. For every minimum rating \<open>r\<close> other than zero (and a year range that is
  not a tuple of one element, on which the code raises), \<open>create_filter\<close> emits the clause
  on \<open>IMDB_Rating\<close> with \<open>min = r\<close>, \<open>inclusive_min = False\<close> and no \<open>max\<close>. The clause lets
  through exactly the ratings above \<open>r\<close>, so it excludes a document whose rating is \<open>r\<close>.
\<close>

theorem create_filter_rating_nonzero:
  assumes "rating \<noteq> 0" and "\<forall>y. year_range \<noteq> Some [y]"
  shows "(\<exists>before after.
            create_filter year_range (Some rating) search_in_title title =
              Inr (PDict [(''query'', PDict [(''conjuncts'',
                 PList (before @
                   [PDict [(''min'', PFloat rating), (''inclusive_min'', PBool False),
                           (''field'', PStr ''IMDB_Rating'')]] @ after))])]))
         \<and> clause_get (PDict [(''min'', PFloat rating), (''inclusive_min'', PBool False),
                               (''field'', PStr ''IMDB_Rating'')]) ''max'' = None
         \<and> \<not> range_admits (PDict [(''min'', PFloat rating), (''inclusive_min'', PBool False),
                                   (''field'', PStr ''IMDB_Rating'')]) rating
         \<and> (\<forall>x. range_admits (PDict [(''min'', PFloat rating), (''inclusive_min'', PBool False),
                                     (''field'', PStr ''IMDB_Rating'')]) x = (rating < x))"
proof -
  let ?c = "PDict [(''min'', PFloat rating), (''inclusive_min'', PBool False),
                   (''field'', PStr ''IMDB_Rating'')]"
  let ?t = "title_step search_in_title title []"
  have r: "rating_step (Some rating) [] = [?c]"
    using assms(1) by (simp add: rating_field_def)
  from tuple_cases [of year_range] assms(2)
  consider "\<not> truthy_tuple year_range"
    | lo hi others where "year_range = Some (lo # hi # others)"
    by blast
  then have emitted: "\<exists>before after.
     create_filter year_range (Some rating) search_in_title title =
       Inr (PDict [(''query'', PDict [(''conjuncts'', PList (before @ [?c] @ after))])])"
  proof cases
    case 1
    have "create_filter year_range (Some rating) search_in_title title =
       Inr (PDict [(''query'', PDict [(''conjuncts'', PList ([] @ [?c] @ ?t))])])"
      unfolding create_filter_falsy [OF 1] r by simp
    then show ?thesis by blast
  next
    case 2
    have "create_filter year_range (Some rating) search_in_title title =
       Inr (PDict [(''query'', PDict [(''conjuncts'',
         PList ([PDict [(''min'', PInt lo), (''max'', PInt hi),
                        (''inclusive_min'', PBool True), (''inclusive_max'', PBool True),
                        (''field'', PStr ''Released_Year'')]] @ [?c] @ ?t))])])"
      unfolding 2 create_filter_pair r by simp
    then show ?thesis by blast
  qed
  have no_max: "clause_get ?c ''max'' = None"
    by simp
  have excluded: "\<not> range_admits ?c rating"
    by (simp add: range_admits_def lower_bound_admits_def)
  have above: "\<forall>x. range_admits ?c x = (rating < x)"
    by (simp add: range_admits_def lower_bound_admits_def upper_bound_admits_def)
  from emitted no_max excluded above show ?thesis
    by blast
qed

text \<open>The year range \<open>(1990, 2024)\<close> with the minimum rating \<open>7.5\<close> gives two conjuncts.\<close>

theorem create_filter_rating_nonzero_witness:
  "create_filter (Some [1990, 2024]) (Some (15 / 2)) False ''space adventure'' =
     Inr (PDict [(''query'', PDict [(''conjuncts'',
        PList [PDict [(''min'', PInt 1990), (''max'', PInt 2024),
                      (''inclusive_min'', PBool True), (''inclusive_max'', PBool True),
                      (''field'', PStr ''Released_Year'')],
               PDict [(''min'', PFloat (15 / 2)), (''inclusive_min'', PBool False),
                      (''field'', PStr ''IMDB_Rating'')]])])])
   \<and> \<not> range_admits (PDict [(''min'', PFloat (15 / 2)), (''inclusive_min'', PBool False),
                             (''field'', PStr ''IMDB_Rating'')]) (15 / 2)
   \<and> range_admits (PDict [(''min'', PFloat (15 / 2)), (''inclusive_min'', PBool False),
                           (''field'', PStr ''IMDB_Rating'')]) 8"
  using create_filter_rating_nonzero [of "15 / 2" "Some [1990, 2024]" False "''space adventure''"]
  by (simp add: create_filter_pair rating_field_def)

text \<open>
  Claim C5. When the year range and the rating are absent (or false) and the title search
  is off, \<open>create_filter\<close> returns the filter with no conjuncts, which matches every
  document whatever the clauses mean.
\<close>

theorem create_filter_no_constraints:
  assumes "\<not> truthy_tuple year_range" and "\<not> truthy_float rating"
  shows "create_filter year_range rating False title =
           Inr (PDict [(''query'', PDict [(''conjuncts'', PList [])])])
         \<and> conjuncts_of (PDict [(''query'', PDict [(''conjuncts'', PList [])])]) = Some []
         \<and> (\<forall>m (d::'d). predicate_matches m (PDict [(''query'', PDict [(''conjuncts'', PList [])])]) d)"
proof -
  have "rating_step rating [] = []"
    using assms(2) by (cases rating) simp_all
  then have "create_filter year_range rating False title =
           Inr (PDict [(''query'', PDict [(''conjuncts'', PList [])])])"
    by (simp add: create_filter_falsy [OF assms(1)])
  then show ?thesis
    by (simp add: predicate_matches_def)
qed

theorem create_filter_no_constraints_witness:
  "create_filter None None False ''space adventure'' =
     Inr (PDict [(''query'', PDict [(''conjuncts'', PList [])])])
   \<and> create_filter (Some []) (Some 0) False ''space adventure'' =
     Inr (PDict [(''query'', PDict [(''conjuncts'', PList [])])])
   \<and> predicate_matches (\<lambda>c d. False) (PDict [(''query'', PDict [(''conjuncts'', PList [])])]) ()"
  using create_filter_no_constraints [where ?'d = unit, of None None "''space adventure''"]
    create_filter_no_constraints [where ?'d = unit, of "Some []" "Some 0" "''space adventure''"]
  by simp

text \<open>
  Claim C9. The rating and the year range are tested for truth: the rating \<open>0.0\<close> gives the
  filter that no rating gives, the empty tuple gives the filter that \<open>None\<close> gives, and
  the filter then has no clause on \<open>IMDB_Rating\<close>, respectively on \<open>Released_Year\<close>. With
  the rating \<open>0.0\<close> alone the filter has no conjunct at all.
\<close>

theorem create_filter_truthiness:
  "create_filter year_range (Some 0) search_in_title title =
     create_filter year_range None search_in_title title
   \<and> create_filter (Some []) rating search_in_title title =
     create_filter None rating search_in_title title
   \<and> (\<forall>f cs. create_filter year_range (Some 0) search_in_title title = Inr f \<longrightarrow>
         conjuncts_of f = Some cs \<longrightarrow>
         (\<forall>c \<in> set cs. clause_get c ''field'' \<noteq> Some (PStr ''IMDB_Rating'')))
   \<and> (\<forall>f cs. create_filter None rating search_in_title title = Inr f \<longrightarrow>
         conjuncts_of f = Some cs \<longrightarrow>
         (\<forall>c \<in> set cs. clause_get c ''field'' \<noteq> Some (PStr ''Released_Year'')))
   \<and> create_filter None (Some 0) False title =
       Inr (PDict [(''query'', PDict [(''conjuncts'', PList [])])])"
proof -
  have a: "create_filter year_range (Some 0) search_in_title title =
     create_filter year_range None search_in_title title"
    unfolding create_filter_def rating_step_zero ..
  have b: "create_filter (Some []) rating search_in_title title =
     create_filter None rating search_in_title title"
    by (simp add: create_filter_falsy)
  have c: "\<forall>c \<in> set cs. clause_get c ''field'' \<noteq> Some (PStr ''IMDB_Rating'')"
    if "create_filter year_range (Some 0) search_in_title title = Inr f"
      and "conjuncts_of f = Some cs" for f cs
  proof -
    from tuple_cases [of year_range]
    consider "\<not> truthy_tuple year_range" | y where "year_range = Some [y]"
      | lo hi others where "year_range = Some (lo # hi # others)"
      by blast
    then show ?thesis
    proof cases
      case 1
      from that show ?thesis
        using title_step_cases [of search_in_title title]
        unfolding create_filter_falsy [OF 1] by (auto simp del: title_step.simps)
    next
      case 2
      with that show ?thesis by (simp add: create_filter_single)
    next
      case 3
      from that show ?thesis
        using title_step_cases [of search_in_title title]
        unfolding 3 create_filter_pair by (auto simp del: title_step.simps)
    qed
  qed
  have d: "\<forall>c \<in> set cs. clause_get c ''field'' \<noteq> Some (PStr ''Released_Year'')"
    if "create_filter None rating search_in_title title = Inr f"
      and "conjuncts_of f = Some cs" for f cs
  proof -
    have "rating_step rating [] = [] \<or>
      (\<exists>r. rating_step rating [] = [PDict [(''min'', PFloat r), (''inclusive_min'', PBool False),
                    (''field'', PStr ''IMDB_Rating'')]])"
      by (cases rating) (simp_all add: rating_field_def)
    with that show ?thesis
      using title_step_cases [of search_in_title title]
      by (auto simp add: create_filter_falsy simp del: title_step.simps rating_step.simps)
  qed
  have e: "create_filter None (Some 0) False title =
       Inr (PDict [(''query'', PDict [(''conjuncts'', PList [])])])"
    by (simp add: create_filter_falsy)
  from a b c d e show ?thesis by blast
qed

theorem create_filter_truthiness_witness:
  "create_filter (Some [1990, 2024]) (Some 0) True ''heat'' =
     Inr (PDict [(''query'', PDict [(''conjuncts'',
        PList [PDict [(''min'', PInt 1990), (''max'', PInt 2024),
                      (''inclusive_min'', PBool True), (''inclusive_max'', PBool True),
                      (''field'', PStr ''Released_Year'')],
               PDict [(''match_phrase'', PStr ''heat''), (''field'', PStr ''Series_Title'')]])])])
   \<and> list_all (\<lambda>c. clause_get c ''field'' \<noteq> Some (PStr ''IMDB_Rating''))
        [PDict [(''min'', PInt 1990), (''max'', PInt 2024),
                (''inclusive_min'', PBool True), (''inclusive_max'', PBool True),
                (''field'', PStr ''Released_Year'')],
         PDict [(''match_phrase'', PStr ''heat''), (''field'', PStr ''Series_Title'')]]
   \<and> create_filter None (Some 7) False ''heat'' =
     Inr (PDict [(''query'', PDict [(''conjuncts'',
        PList [PDict [(''min'', PFloat 7), (''inclusive_min'', PBool False),
                      (''field'', PStr ''IMDB_Rating'')]])])])
   \<and> list_all (\<lambda>c. clause_get c ''field'' \<noteq> Some (PStr ''Released_Year''))
        [PDict [(''min'', PFloat 7), (''inclusive_min'', PBool False),
                (''field'', PStr ''IMDB_Rating'')]]"
  using create_filter_truthiness [of "Some [1990, 2024]" True "''heat''" "Some 7"]
  by (simp add: create_filter_pair create_filter_falsy rating_field_def title_field_def)

text \<open>
  Claim C10, as stated, fails on a year range given as a tuple of one element: with the
  title search on, \<open>year_range[1]\<close> raises \<open>IndexError\<close> before the title is looked at, and
  no filter and no phrase clause come out.
\<close>

theorem create_filter_title_phrase_counterexample:
  "create_filter (Some [1990]) None True ''heat'' = Inl IndexError"
  by (simp add: create_filter_single)

text \<open>
  Claim C10, amended. When the title search is on and the year range is not a tuple of one
  element, \<open>create_filter\<close> returns a filter whose last conjunct is the phrase clause on
  \<open>Series_Title\<close> with the title as it was given, whatever the title is, the empty string
  included.
\<close>

theorem create_filter_title_phrase:
  assumes "\<forall>y. year_range \<noteq> Some [y]"
  shows "\<exists>before. create_filter year_range rating True title =
     Inr (PDict [(''query'', PDict [(''conjuncts'',
        PList (before @
          [PDict [(''match_phrase'', PStr title), (''field'', PStr ''Series_Title'')]]))])])"
proof -
  have t: "title_step True title [] =
     [PDict [(''match_phrase'', PStr title), (''field'', PStr ''Series_Title'')]]"
    by (simp add: title_field_def)
  from tuple_cases [of year_range] assms
  consider "\<not> truthy_tuple year_range"
    | lo hi others where "year_range = Some (lo # hi # others)"
    by blast
  then show ?thesis
  proof cases
    case 1
    show ?thesis unfolding create_filter_falsy [OF 1] t by blast
  next
    case 2
    have "\<exists>before. x # ys @ zs = before @ zs" for x :: pyval and ys zs
      by (rule exI [of _ "x # ys"]) simp
    then show ?thesis unfolding 2 create_filter_pair t by simp
  qed
qed

text \<open>The empty title gives a clause with the empty phrase.\<close>

theorem create_filter_title_phrase_witness:
  "create_filter None None True [] =
     Inr (PDict [(''query'', PDict [(''conjuncts'',
        PList [PDict [(''match_phrase'', PStr []), (''field'', PStr ''Series_Title'')]])])])"
  using create_filter_title_phrase [of None None "[]"]
  by (simp add: create_filter_falsy title_field_def)

section \<open>Properties of \<open>search_couchbase\<close>\<close>

text \<open>
  The loop over the rows returns what the generator yields, each row as the pair of its
  fields and its score, after what was collected before; it fails when the generator
  raises. The lemmas after it follow \<open>search_couchbase\<close> through each of its outcomes.
\<close>

lemma parse_rows_rows_of:
  "parse_rows search_iter acc =
     (case rows_of search_iter of
        Inl e \<Rightarrow> Inl e
      | Inr rows \<Rightarrow> Inr (acc @ map (\<lambda>row. (row_fields row, row_score row)) rows))"
  by (induction search_iter arbitrary: acc) (simp_all split: sum.splits)

lemma search_couchbase_embedding_fails:
  "generate_embeddings EMBEDDING_MODEL embedding_client (PStr search_text) w = (Inl e, w1) \<Longrightarrow>
   search_couchbase vq_check db_scope index_name embedding_client embedding_key search_text k
     fields_arg search_options_arg w = (Inl e, w1)"
  by (simp add: search_couchbase_def)

lemma search_couchbase_rejected:
  "generate_embeddings EMBEDDING_MODEL embedding_client (PStr search_text) w = (Inr v, w1) \<Longrightarrow>
   vq_check embedding_key v k = Some e \<Longrightarrow>
   search_couchbase vq_check db_scope index_name embedding_client embedding_key search_text k
     fields_arg search_options_arg w = (Inl e, w1)"
  by (simp add: search_couchbase_def)

lemma search_couchbase_search_fails:
  "generate_embeddings EMBEDDING_MODEL embedding_client (PStr search_text) w = (Inr v, w1) \<Longrightarrow>
   vq_check embedding_key v k = None \<Longrightarrow>
   db_scope index_name (SearchRequest (VectorSearch [VectorQuery embedding_key v k]))
     (SearchOptions k fields_arg search_options_arg) w1 = (Inl e, w2) \<Longrightarrow>
   search_couchbase vq_check db_scope index_name embedding_client embedding_key search_text k
     fields_arg search_options_arg w = (Inl e, w2)"
  by (simp add: search_couchbase_def)

lemma search_couchbase_searched:
  "generate_embeddings EMBEDDING_MODEL embedding_client (PStr search_text) w = (Inr v, w1) \<Longrightarrow>
   vq_check embedding_key v k = None \<Longrightarrow>
   db_scope index_name (SearchRequest (VectorSearch [VectorQuery embedding_key v k]))
     (SearchOptions k fields_arg search_options_arg) w1 = (Inr search_iter, w2) \<Longrightarrow>
   search_couchbase vq_check db_scope index_name embedding_client embedding_key search_text k
     fields_arg search_options_arg w =
     ((case rows_of search_iter of
        Inl e \<Rightarrow> Inl e
      | Inr rows \<Rightarrow> Inr (map (\<lambda>row. (row_fields row, row_score row)) rows)), w2)"
  by (simp add: search_couchbase_def parse_rows_rows_of split: sum.splits)

lemma generate_embeddings_fails:
  "embedding_client input_data model w = (Inl e, w1) \<Longrightarrow>
   generate_embeddings model embedding_client input_data w = (Inl e, w1)"
  by (simp add: generate_embeddings_def)

text \<open>
  Claim C1. \<open>search_couchbase\<close> returns a sequence exactly when the embedding is obtained,
  the SDK accepts the vector query, the store's search succeeds and its generator runs to
  its end; the sequence is then the store's rows in the store's order, each row given as
  its fields paired with its score: nothing is dropped, added, reordered or rescored.
\<close>

theorem search_couchbase_returns_store_rows:
  "search_couchbase vq_check db_scope index_name embedding_client embedding_key search_text k
       fields_arg search_options_arg w = (Inr docs_with_score, w2) \<longleftrightarrow>
   (\<exists>v w1 search_iter rows.
      generate_embeddings EMBEDDING_MODEL embedding_client (PStr search_text) w = (Inr v, w1)
      \<and> vq_check embedding_key v k = None
      \<and> db_scope index_name (SearchRequest (VectorSearch [VectorQuery embedding_key v k]))
            (SearchOptions k fields_arg search_options_arg) w1 = (Inr search_iter, w2)
      \<and> rows_of search_iter = Inr rows
      \<and> docs_with_score = map (\<lambda>row. (row_fields row, row_score row)) rows)"
  (is "?lhs \<longleftrightarrow> ?rhs")
proof
  assume ?rhs
  then show ?lhs
    by (auto simp add: search_couchbase_searched)
next
  assume l: ?lhs
  obtain r1 w1 where g: "generate_embeddings EMBEDDING_MODEL embedding_client (PStr search_text) w = (r1, w1)"
    by (cases "generate_embeddings EMBEDDING_MODEL embedding_client (PStr search_text) w")
  from l g obtain v where v: "r1 = Inr v"
    by (cases r1) (simp_all add: search_couchbase_embedding_fails)
  from l g v have c: "vq_check embedding_key v k = None"
    by (cases "vq_check embedding_key v k") (simp_all add: search_couchbase_rejected)
  obtain r2 w2' where s: "db_scope index_name (SearchRequest (VectorSearch [VectorQuery embedding_key v k]))
            (SearchOptions k fields_arg search_options_arg) w1 = (r2, w2')"
    by (cases "db_scope index_name (SearchRequest (VectorSearch [VectorQuery embedding_key v k]))
            (SearchOptions k fields_arg search_options_arg) w1")
  from l g v c s obtain search_iter where i: "r2 = Inr search_iter"
    by (cases r2) (simp_all add: search_couchbase_search_fails)
  from l g v c s i have "w2' = w2"
    and p: "(case rows_of search_iter of Inl e \<Rightarrow> Inl e
      | Inr rows \<Rightarrow> Inr (map (\<lambda>row. (row_fields row, row_score row)) rows)) = Inr docs_with_score"
    by (simp_all add: search_couchbase_searched)
  from p obtain rows where "rows_of search_iter = Inr rows"
    and "docs_with_score = map (\<lambda>row. (row_fields row, row_score row)) rows"
    by (cases "rows_of search_iter") auto
  with g v c s i \<open>w2' = w2\<close> show ?rhs
    by blast
qed

text \<open>
  Three rows, not sorted by score and with a repeated row, come back as the store gave
  them.
\<close>

theorem search_couchbase_returns_store_rows_witness:
  "search_couchbase (\<lambda>field_name vector n. None)
     (logged_scope (\<lambda>index_name request options.
        Inr (Yield (SearchRow (PDict [(''Series_Title'', PStr ''Alien'')]) 2)
            (Yield (SearchRow (PDict [(''Series_Title'', PStr ''Heat'')]) 3)
            (Yield (SearchRow (PDict [(''Series_Title'', PStr ''Alien'')]) 2) Done)))))
     ''movies''
     (logged_client (\<lambda>input_data model. Inr [PList [PFloat 1, PFloat 0]]))
     ''Overview_embedding'' ''space adventure'' 5 [''*''] (PDict []) [] =
   (Inr [(PDict [(''Series_Title'', PStr ''Alien'')], 2),
         (PDict [(''Series_Title'', PStr ''Heat'')], 3),
         (PDict [(''Series_Title'', PStr ''Alien'')], 2)],
    [EmbeddingsCreate (PStr ''space adventure'') ''text-embedding-3-small'',
     ScopeSearch ''movies''
       (SearchRequest (VectorSearch [VectorQuery ''Overview_embedding'' (PList [PFloat 1, PFloat 0]) 5]))
       (SearchOptions 5 [''*''] (PDict []))])"
  (is "?search = (Inr ?docs, ?w2)")
proof -
  have "\<exists>v w1 search_iter rows.
      generate_embeddings EMBEDDING_MODEL
        (logged_client (\<lambda>input_data model. Inr [PList [PFloat 1, PFloat 0]]))
        (PStr ''space adventure'') [] = (Inr v, w1)
      \<and> (None :: py_error option) = None
      \<and> logged_scope (\<lambda>index_name request options.
        Inr (Yield (SearchRow (PDict [(''Series_Title'', PStr ''Alien'')]) 2)
            (Yield (SearchRow (PDict [(''Series_Title'', PStr ''Heat'')]) 3)
            (Yield (SearchRow (PDict [(''Series_Title'', PStr ''Alien'')]) 2) Done))))
          ''movies'' (SearchRequest (VectorSearch [VectorQuery ''Overview_embedding'' v 5]))
            (SearchOptions 5 [''*''] (PDict [])) w1 = (Inr search_iter, ?w2)
      \<and> rows_of search_iter = Inr rows
      \<and> ?docs = map (\<lambda>row. (row_fields row, row_score row)) rows"
    by (simp add: generate_embeddings_def logged_client_def logged_scope_def subscript_def
        EMBEDDING_MODEL_def)
  then show ?thesis
    by (simp only: search_couchbase_returns_store_rows)
qed


text \<open>
  Claim C4, as stated, fails: \<open>search_couchbase\<close> has no check of \<open>k\<close>. With \<open>k = 0\<close> it
  calls the embedding service first, and when that call fails the search fails with the
  embedding error, not with \<open>InvalidArgument\<close>, even under an SDK that refuses \<open>k < 1\<close>.
\<close>

theorem search_couchbase_k_zero_counterexample:
  "search_couchbase
     (\<lambda>field_name vector n. if n < 1 then Some (InvalidArgument ''num_candidates'') else None)
     (logged_scope (\<lambda>index_name request options. Inr Done)) ''movies''
     (logged_client (\<lambda>input_data model. Inl (EmbeddingServiceError ''rate limit'')))
     ''Overview_embedding'' ''space adventure'' 0 [''*''] (PDict []) [] =
   (Inl (EmbeddingServiceError ''rate limit''),
    [EmbeddingsCreate (PStr ''space adventure'') ''text-embedding-3-small''])"
  by (simp add: search_couchbase_def generate_embeddings_def logged_client_def EMBEDDING_MODEL_def)

text \<open>
  Claim C4, amended. For every \<open>k\<close>, \<open>search_couchbase\<close> first obtains the embedding, and
  a failure there is the outcome whatever \<open>k\<close> is. Then \<open>k\<close> goes unchanged to the \<lambda>field_name vector n. if n < 1 then Some (InvalidArgument ''num_candidates'') else None's
  \<open>VectorQuery\<close>: when the \<lambda>field_name vector n. if n < 1 then Some (InvalidArgument ''num_candidates'') else None refuses it, the search fails with the \<lambda>field_name vector n. if n < 1 then Some (InvalidArgument ''num_candidates'') else None's error and the
  store is not called (the world is the one the embedding call left). When the \<lambda>field_name vector n. if n < 1 then Some (InvalidArgument ''num_candidates'') else None accepts
  it, the store is searched with \<open>limit = k\<close>, and the result is every row the store
  yields, whatever their number: exactly as many entries as the store's rows, so at most
  \<open>k\<close> when the store keeps to the limit.
\<close>

theorem search_couchbase_k_unchecked:
  "(generate_embeddings EMBEDDING_MODEL embedding_client (PStr search_text) w = (Inl e, w1) \<longrightarrow>
      search_couchbase vq_check db_scope index_name embedding_client embedding_key search_text k
        fields_arg search_options_arg w = (Inl e, w1))
   \<and> (generate_embeddings EMBEDDING_MODEL embedding_client (PStr search_text) w = (Inr v, w1)
        \<and> vq_check embedding_key v k = Some e \<longrightarrow>
      search_couchbase vq_check db_scope index_name embedding_client embedding_key search_text k
        fields_arg search_options_arg w = (Inl e, w1))
   \<and> (generate_embeddings EMBEDDING_MODEL embedding_client (PStr search_text) w = (Inr v, w1)
        \<and> vq_check embedding_key v k = None
        \<and> db_scope index_name (SearchRequest (VectorSearch [VectorQuery embedding_key v k]))
              (SearchOptions k fields_arg search_options_arg) w1 = (Inr search_iter, w2)
        \<and> rows_of search_iter = Inr rows \<longrightarrow>
      search_couchbase vq_check db_scope index_name embedding_client embedding_key search_text k
        fields_arg search_options_arg w =
        (Inr (map (\<lambda>row. (row_fields row, row_score row)) rows), w2)
      \<and> length (map (\<lambda>row. (row_fields row, row_score row)) rows) = length rows)
   \<and> (generate_embeddings EMBEDDING_MODEL embedding_client (PStr search_text) w = (Inr v, w1)
        \<and> vq_check embedding_key v k = None
        \<and> db_scope index_name (SearchRequest (VectorSearch [VectorQuery embedding_key v k]))
              (SearchOptions k fields_arg search_options_arg) w1 = (Inr search_iter, w2)
        \<and> rows_of search_iter = Inr rows \<and> int (length rows) \<le> k \<longrightarrow>
      (\<exists>docs_with_score.
         search_couchbase vq_check db_scope index_name embedding_client embedding_key search_text k
           fields_arg search_options_arg w = (Inr docs_with_score, w2)
         \<and> length docs_with_score = length rows \<and> int (length docs_with_score) \<le> k))"
  by (simp add: search_couchbase_embedding_fails search_couchbase_rejected
      search_couchbase_searched)

text \<open>
  Under an \<lambda>field_name vector n. if n < 1 then Some (InvalidArgument ''num_candidates'') else None that refuses \<open>k < 1\<close>: \<open>k = -1\<close> with a failing embedding service, \<open>k = 0\<close>
  with a working one (one remote call, no search), \<open>k = 1\<close> with a store that yields one
  row, and \<open>k = 1\<close> with a store that yields three rows, which all come back.
\<close>

theorem search_couchbase_k_unchecked_witness:
  "search_couchbase
     (\<lambda>field_name vector n. if n < 1 then Some (InvalidArgument ''num_candidates'') else None)
     (logged_scope (\<lambda>index_name request options. Inr Done)) ''movies''
     (logged_client (\<lambda>input_data model. Inl (EmbeddingServiceError ''rate limit'')))
     ''Overview_embedding'' ''space adventure'' (- 1) [''*''] (PDict []) [] =
   (Inl (EmbeddingServiceError ''rate limit''),
    [EmbeddingsCreate (PStr ''space adventure'') ''text-embedding-3-small''])
   \<and> search_couchbase
     (\<lambda>field_name vector n. if n < 1 then Some (InvalidArgument ''num_candidates'') else None)
     (logged_scope (\<lambda>index_name request options. Inr Done)) ''movies''
     (logged_client (\<lambda>input_data model. Inr [PList [PFloat 1]]))
     ''Overview_embedding'' ''space adventure'' 0 [''*''] (PDict []) [] =
   (Inl (InvalidArgument ''num_candidates''),
    [EmbeddingsCreate (PStr ''space adventure'') ''text-embedding-3-small''])
   \<and> search_couchbase
     (\<lambda>field_name vector n. if n < 1 then Some (InvalidArgument ''num_candidates'') else None)
     (logged_scope (\<lambda>index_name request options.
        Inr (Yield (SearchRow (PDict [(''Series_Title'', PStr ''Alien'')]) 2) Done))) ''movies''
     (logged_client (\<lambda>input_data model. Inr [PList [PFloat 1]]))
     ''Overview_embedding'' ''space adventure'' 1 [''*''] (PDict []) [] =
   (Inr [(PDict [(''Series_Title'', PStr ''Alien'')], 2)],
    [EmbeddingsCreate (PStr ''space adventure'') ''text-embedding-3-small'',
     ScopeSearch ''movies''
       (SearchRequest (VectorSearch [VectorQuery ''Overview_embedding'' (PList [PFloat 1]) 1]))
       (SearchOptions 1 [''*''] (PDict []))])
   \<and> search_couchbase
     (\<lambda>field_name vector n. if n < 1 then Some (InvalidArgument ''num_candidates'') else None)
     (logged_scope (\<lambda>index_name request options.
        Inr (Yield (SearchRow (PDict [(''Series_Title'', PStr ''Alien'')]) 2) (Yield (SearchRow (PDict [(''Series_Title'', PStr ''Heat'')]) 3) (Yield (SearchRow (PDict [(''Series_Title'', PStr ''Solaris'')]) 1) Done))))) ''movies''
     (logged_client (\<lambda>input_data model. Inr [PList [PFloat 1]]))
     ''Overview_embedding'' ''space adventure'' 1 [''*''] (PDict []) [] =
   (Inr [(PDict [(''Series_Title'', PStr ''Alien'')], 2),
         (PDict [(''Series_Title'', PStr ''Heat'')], 3),
         (PDict [(''Series_Title'', PStr ''Solaris'')], 1)],
    [EmbeddingsCreate (PStr ''space adventure'') ''text-embedding-3-small'',
     ScopeSearch ''movies''
       (SearchRequest (VectorSearch [VectorQuery ''Overview_embedding'' (PList [PFloat 1]) 1]))
       (SearchOptions 1 [''*''] (PDict []))])"
  using
    search_couchbase_k_unchecked [where embedding_client = "logged_client (\<lambda>input_data model. Inl (EmbeddingServiceError ''rate limit''))"
      and search_text = "''space adventure''" and w = "[]"
      and e = "EmbeddingServiceError ''rate limit''"
      and ?w1.0 = "[EmbeddingsCreate (PStr ''space adventure'') ''text-embedding-3-small'']"
      and vq_check = "\<lambda>field_name vector n. if n < 1 then Some (InvalidArgument ''num_candidates'') else None"
      and db_scope = "logged_scope (\<lambda>index_name request options. Inr Done)"
      and index_name = "''movies''" and embedding_key = "''Overview_embedding''" and k = "- 1"
      and fields_arg = "[''*'']" and search_options_arg = "PDict []"]
    search_couchbase_k_unchecked [where embedding_client = "logged_client (\<lambda>input_data model. Inr [PList [PFloat 1]])"
      and search_text = "''space adventure''" and w = "[]"
      and e = "InvalidArgument ''num_candidates''"
      and v = "PList [PFloat 1]"
      and ?w1.0 = "[EmbeddingsCreate (PStr ''space adventure'') ''text-embedding-3-small'']"
      and vq_check = "\<lambda>field_name vector n. if n < 1 then Some (InvalidArgument ''num_candidates'') else None"
      and db_scope = "logged_scope (\<lambda>index_name request options. Inr Done)"
      and index_name = "''movies''" and embedding_key = "''Overview_embedding''" and k = "0"
      and fields_arg = "[''*'']" and search_options_arg = "PDict []"]
    search_couchbase_k_unchecked [where embedding_client = "logged_client (\<lambda>input_data model. Inr [PList [PFloat 1]])"
      and search_text = "''space adventure''" and w = "[]"
      and v = "PList [PFloat 1]"
      and ?w1.0 = "[EmbeddingsCreate (PStr ''space adventure'') ''text-embedding-3-small'']"
      and ?w2.0 = "[EmbeddingsCreate (PStr ''space adventure'') ''text-embedding-3-small'',
         ScopeSearch ''movies''
           (SearchRequest (VectorSearch [VectorQuery ''Overview_embedding'' (PList [PFloat 1]) 1]))
           (SearchOptions 1 [''*''] (PDict []))]"
      and vq_check = "\<lambda>field_name vector n. if n < 1 then Some (InvalidArgument ''num_candidates'') else None"
      and db_scope = "logged_scope (\<lambda>index_name request options. Inr (Yield (SearchRow (PDict [(''Series_Title'', PStr ''Alien'')]) 2) Done))"
      and search_iter = "Yield (SearchRow (PDict [(''Series_Title'', PStr ''Alien'')]) 2) Done"
      and rows = "[SearchRow (PDict [(''Series_Title'', PStr ''Alien'')]) 2]"
      and index_name = "''movies''" and embedding_key = "''Overview_embedding''" and k = "1"
      and fields_arg = "[''*'']" and search_options_arg = "PDict []"]
    search_couchbase_k_unchecked [where embedding_client = "logged_client (\<lambda>input_data model. Inr [PList [PFloat 1]])"
      and search_text = "''space adventure''" and w = "[]"
      and v = "PList [PFloat 1]"
      and ?w1.0 = "[EmbeddingsCreate (PStr ''space adventure'') ''text-embedding-3-small'']"
      and ?w2.0 = "[EmbeddingsCreate (PStr ''space adventure'') ''text-embedding-3-small'',
         ScopeSearch ''movies''
           (SearchRequest (VectorSearch [VectorQuery ''Overview_embedding'' (PList [PFloat 1]) 1]))
           (SearchOptions 1 [''*''] (PDict []))]"
      and vq_check = "\<lambda>field_name vector n. if n < 1 then Some (InvalidArgument ''num_candidates'') else None"
      and db_scope = "logged_scope (\<lambda>index_name request options. Inr (Yield (SearchRow (PDict [(''Series_Title'', PStr ''Alien'')]) 2) (Yield (SearchRow (PDict [(''Series_Title'', PStr ''Heat'')]) 3) (Yield (SearchRow (PDict [(''Series_Title'', PStr ''Solaris'')]) 1) Done))))"
      and search_iter = "Yield (SearchRow (PDict [(''Series_Title'', PStr ''Alien'')]) 2) (Yield (SearchRow (PDict [(''Series_Title'', PStr ''Heat'')]) 3) (Yield (SearchRow (PDict [(''Series_Title'', PStr ''Solaris'')]) 1) Done))"
      and rows = "[SearchRow (PDict [(''Series_Title'', PStr ''Alien'')]) 2, SearchRow (PDict [(''Series_Title'', PStr ''Heat'')]) 3, SearchRow (PDict [(''Series_Title'', PStr ''Solaris'')]) 1]"
      and index_name = "''movies''" and embedding_key = "''Overview_embedding''" and k = "1"
      and fields_arg = "[''*'']" and search_options_arg = "PDict []"]
  by (simp add: generate_embeddings_def logged_client_def logged_scope_def
      subscript_def EMBEDDING_MODEL_def)

text \<open>
  Claim C7. A failure of the embedding call, of the store's search call or of the store's
  row generator is the outcome of \<open>search_couchbase\<close>, with the same exception and the
  world that the failing call left: no call is repeated, and no sequence is returned.
\<close>

theorem search_couchbase_propagates_failures:
  "(embedding_client (PStr search_text) EMBEDDING_MODEL w = (Inl e, w1) \<longrightarrow>
      search_couchbase vq_check db_scope index_name embedding_client embedding_key search_text k
        fields_arg search_options_arg w = (Inl e, w1))
   \<and> (generate_embeddings EMBEDDING_MODEL embedding_client (PStr search_text) w = (Inr v, w1)
        \<and> vq_check embedding_key v k = None
        \<and> db_scope index_name (SearchRequest (VectorSearch [VectorQuery embedding_key v k]))
              (SearchOptions k fields_arg search_options_arg) w1 = (Inl e, w2) \<longrightarrow>
      search_couchbase vq_check db_scope index_name embedding_client embedding_key search_text k
        fields_arg search_options_arg w = (Inl e, w2))
   \<and> (generate_embeddings EMBEDDING_MODEL embedding_client (PStr search_text) w = (Inr v, w1)
        \<and> vq_check embedding_key v k = None
        \<and> db_scope index_name (SearchRequest (VectorSearch [VectorQuery embedding_key v k]))
              (SearchOptions k fields_arg search_options_arg) w1 = (Inr search_iter, w2)
        \<and> rows_of search_iter = Inl e \<longrightarrow>
      search_couchbase vq_check db_scope index_name embedding_client embedding_key search_text k
        fields_arg search_options_arg w = (Inl e, w2))"
  by (simp add: generate_embeddings_fails search_couchbase_embedding_fails
      search_couchbase_search_fails search_couchbase_searched)

text \<open>
  With the log of remote calls as the world: a failing embedding call is made once and no
  search follows; a failing search is made once; rows yielded before the generator raises
  are not returned.
\<close>

theorem search_couchbase_propagates_failures_witness:
  "search_couchbase (\<lambda>field_name vector n. None)
     (logged_scope (\<lambda>index_name request options. Inr Done)) ''movies''
     (logged_client (\<lambda>input_data model. Inl (EmbeddingServiceError ''rate limit'')))
     ''Overview_embedding'' ''space adventure'' 5 [''*''] (PDict []) [] =
   (Inl (EmbeddingServiceError ''rate limit''),
    [EmbeddingsCreate (PStr ''space adventure'') ''text-embedding-3-small''])
   \<and> search_couchbase (\<lambda>field_name vector n. None)
     (logged_scope (\<lambda>index_name request options. Inl (StoreQueryError ''index not found''))) ''movies''
     (logged_client (\<lambda>input_data model. Inr [PList [PFloat 1]]))
     ''Overview_embedding'' ''space adventure'' 5 [''*''] (PDict []) [] =
   (Inl (StoreQueryError ''index not found''),
    [EmbeddingsCreate (PStr ''space adventure'') ''text-embedding-3-small'',
     ScopeSearch ''movies''
       (SearchRequest (VectorSearch [VectorQuery ''Overview_embedding'' (PList [PFloat 1]) 5]))
       (SearchOptions 5 [''*''] (PDict []))])
   \<and> search_couchbase (\<lambda>field_name vector n. None)
     (logged_scope (\<lambda>index_name request options.
        Inr (Yield (SearchRow (PDict [(''Series_Title'', PStr ''Alien'')]) 2)
            (Raise (StoreQueryError ''timeout''))))) ''movies''
     (logged_client (\<lambda>input_data model. Inr [PList [PFloat 1]]))
     ''Overview_embedding'' ''space adventure'' 5 [''*''] (PDict []) [] =
   (Inl (StoreQueryError ''timeout''),
    [EmbeddingsCreate (PStr ''space adventure'') ''text-embedding-3-small'',
     ScopeSearch ''movies''
       (SearchRequest (VectorSearch [VectorQuery ''Overview_embedding'' (PList [PFloat 1]) 5]))
       (SearchOptions 5 [''*''] (PDict []))])"
  using
    search_couchbase_propagates_failures [where embedding_client = "logged_client (\<lambda>input_data model. Inl (EmbeddingServiceError ''rate limit''))"
      and search_text = "''space adventure''" and w = "[]"
      and e = "EmbeddingServiceError ''rate limit''"
      and ?w1.0 = "[EmbeddingsCreate (PStr ''space adventure'') ''text-embedding-3-small'']"
      and vq_check = "\<lambda>field_name vector n. None"
      and db_scope = "logged_scope (\<lambda>index_name request options. Inr Done)"
      and index_name = "''movies''" and embedding_key = "''Overview_embedding''" and k = 5
      and fields_arg = "[''*'']" and search_options_arg = "PDict []"]
    search_couchbase_propagates_failures [where embedding_client = "logged_client (\<lambda>input_data model. Inr [PList [PFloat 1]])"
      and search_text = "''space adventure''" and w = "[]"
      and e = "StoreQueryError ''index not found''" and v = "PList [PFloat 1]"
      and ?w1.0 = "[EmbeddingsCreate (PStr ''space adventure'') ''text-embedding-3-small'']"
      and ?w2.0 = "[EmbeddingsCreate (PStr ''space adventure'') ''text-embedding-3-small'',
         ScopeSearch ''movies''
           (SearchRequest (VectorSearch [VectorQuery ''Overview_embedding'' (PList [PFloat 1]) 5]))
           (SearchOptions 5 [''*''] (PDict []))]"
      and vq_check = "\<lambda>field_name vector n. None"
      and db_scope = "logged_scope (\<lambda>index_name request options. Inl (StoreQueryError ''index not found''))"
      and index_name = "''movies''" and embedding_key = "''Overview_embedding''" and k = 5
      and fields_arg = "[''*'']" and search_options_arg = "PDict []"]
    search_couchbase_propagates_failures [where embedding_client = "logged_client (\<lambda>input_data model. Inr [PList [PFloat 1]])"
      and search_text = "''space adventure''" and w = "[]"
      and e = "StoreQueryError ''timeout''" and v = "PList [PFloat 1]"
      and ?w1.0 = "[EmbeddingsCreate (PStr ''space adventure'') ''text-embedding-3-small'']"
      and ?w2.0 = "[EmbeddingsCreate (PStr ''space adventure'') ''text-embedding-3-small'',
         ScopeSearch ''movies''
           (SearchRequest (VectorSearch [VectorQuery ''Overview_embedding'' (PList [PFloat 1]) 5]))
           (SearchOptions 5 [''*''] (PDict []))]"
      and vq_check = "\<lambda>field_name vector n. None"
      and db_scope = "logged_scope (\<lambda>index_name request options.
        Inr (Yield (SearchRow (PDict [(''Series_Title'', PStr ''Alien'')]) 2)
            (Raise (StoreQueryError ''timeout''))))"
      and search_iter = "Yield (SearchRow (PDict [(''Series_Title'', PStr ''Alien'')]) 2)
            (Raise (StoreQueryError ''timeout''))"
      and index_name = "''movies''" and embedding_key = "''Overview_embedding''" and k = 5
      and fields_arg = "[''*'']" and search_options_arg = "PDict []"]
  by (simp add: generate_embeddings_def logged_client_def logged_scope_def subscript_def
      EMBEDDING_MODEL_def)

section \<open>Properties of the ingestion script\<close>

text \<open>
  The loop over two batches in a row is the loop over the first, then over the second
  unless the first failed. In the reference environment the rows of a batch do not depend
  on what the data source holds; a row whose embedding succeeds and whose write the store
  accepts is upserted under the next id drawn, a row that fails leaves the collection as it
  was, and a batch of rows that succeed is the sequence of their upserts. Upserts under
  ids that are distinct and new to the collection append to it.
\<close>

lemma ingest_rows_append:
  "ingest_rows env model (rows1 @ rows2) w =
     (case ingest_rows env model rows1 w of
        (Inl e, w') \<Rightarrow> (Inl e, w')
      | (Inr u, w') \<Rightarrow> ingest_rows env model rows2 w')"
  by (induction rows1 arbitrary: w) (simp_all split: prod.splits sum.splits)

lemma ingest_rows_stops:
  assumes "ingest_rows env model rows1 w = (Inr (), w1)"
    and "ingest_row env model row w1 = (Inl e, w2)"
  shows "ingest_rows env model (rows1 @ row # rows2) w = (Inl e, w2)"
  using assms by (simp add: ingest_rows_append)

lemma store_ingest_row_source:
  "ingest_row (store_env embed_fn ids upsert_error source) model row w =
   ingest_row (store_env embed_fn ids upsert_error source') model row w"
  by (simp add: ingest_row_def store_env_def split: sum.splits prod.splits)

lemma store_ingest_rows_source:
  "ingest_rows (store_env embed_fn ids upsert_error source) model rows w =
   ingest_rows (store_env embed_fn ids upsert_error source') model rows w"
  by (induction rows arbitrary: w)
     (simp_all add: store_ingest_row_source [of _ _ _ source _ _ _ source']
        split: sum.splits prod.splits)

lemma store_ingest_row_ok:
  assumes "embedded_row embed_fn model row = Inr doc"
    and "upsert_error (ids (uuids_drawn w)) doc = None"
  shows "\<exists>w'. ingest_row (store_env embed_fn ids upsert_error source) model row w = (Inr (), w')
     \<and> collection w' = AList.update (ids (uuids_drawn w)) doc (collection w)
     \<and> uuids_drawn w' = Suc (uuids_drawn w)
     \<and> stdout w' = stdout w"
  using assms
  by (auto simp add: embedded_row_def ingest_row_def store_env_def generate_embeddings_def
      split: sum.splits)

lemma store_ingest_row_fails:
  assumes "embedded_row embed_fn model row = Inl e
     \<or> (\<exists>doc. embedded_row embed_fn model row = Inr doc
            \<and> upsert_error (ids (uuids_drawn w)) doc = Some e)"
  shows "\<exists>w'. ingest_row (store_env embed_fn ids upsert_error source) model row w = (Inl e, w')
     \<and> collection w' = collection w
     \<and> stdout w' = stdout w"
  using assms
  by (auto simp add: embedded_row_def ingest_row_def store_env_def generate_embeddings_def
      split: sum.splits)

lemma store_ingest_rows_ok:
  assumes "map (embedded_row embed_fn model) rows = map Inr docs"
    and "\<forall>i<length docs. upsert_error (ids (uuids_drawn w + i)) (docs ! i) = None"
  shows "\<exists>w'. ingest_rows (store_env embed_fn ids upsert_error source) model rows w = (Inr (), w')
     \<and> collection w' =
         AList.updates (map ids [uuids_drawn w..<uuids_drawn w + length rows]) docs (collection w)
     \<and> uuids_drawn w' = uuids_drawn w + length rows
     \<and> stdout w' = stdout w"
  using assms
proof (induction rows arbitrary: docs w)
  case Nil
  then show ?case by simp
next
  case (Cons row rows)
  from Cons.prems(1) obtain doc docs' where docs: "docs = doc # docs'"
    and doc: "embedded_row embed_fn model row = Inr doc"
    and rest: "map (embedded_row embed_fn model) rows = map Inr docs'"
    by (cases docs) auto
  let ?env = "store_env embed_fn ids upsert_error source"
  from Cons.prems(2) have "upsert_error (ids (uuids_drawn w)) doc = None"
    unfolding docs by fastforce
  from store_ingest_row_ok [where upsert_error = upsert_error and ids = ids and w = w
      and source = source, OF doc this]
  obtain w1 where step: "ingest_row ?env model row w = (Inr (), w1)"
    and c1: "collection w1 = AList.update (ids (uuids_drawn w)) doc (collection w)"
    and d1: "uuids_drawn w1 = Suc (uuids_drawn w)"
    and s1: "stdout w1 = stdout w"
    by blast
  have "\<forall>i<length docs'. upsert_error (ids (uuids_drawn w1 + i)) (docs' ! i) = None"
  proof (intro allI impI)
    fix i assume "i < length docs'"
    then have "Suc i < length docs" by (simp add: docs)
    with Cons.prems(2) have "upsert_error (ids (uuids_drawn w + Suc i)) (docs ! Suc i) = None"
      by blast
    then show "upsert_error (ids (uuids_drawn w1 + i)) (docs' ! i) = None"
      by (simp add: d1 docs)
  qed
  from Cons.IH [where w = w1, OF rest this]
  obtain w' where run: "ingest_rows ?env model rows w1 = (Inr (), w')"
    and c': "collection w' =
         AList.updates (map ids [uuids_drawn w1..<uuids_drawn w1 + length rows]) docs' (collection w1)"
    and d': "uuids_drawn w' = uuids_drawn w1 + length rows"
    and s': "stdout w' = stdout w1"
    by blast
  have "ingest_rows ?env model (row # rows) w = (Inr (), w')"
    by (simp add: step run)
  moreover have "[uuids_drawn w..<uuids_drawn w + length (row # rows)] =
      uuids_drawn w # [uuids_drawn w1..<uuids_drawn w1 + length rows]"
    by (simp add: d1 upt_conv_Cons del: upt_Suc)
  then have "collection w' =
      AList.updates (map ids [uuids_drawn w..<uuids_drawn w + length (row # rows)]) docs (collection w)"
    by (simp only: c' c1 docs) simp
  moreover have "uuids_drawn w' = uuids_drawn w + length (row # rows)"
    by (simp add: d' d1)
  moreover have "stdout w' = stdout w"
    by (simp add: s' s1)
  ultimately show ?case by blast
qed



lemma store_script_start:
  "load_data (store_env embed_fn ids upsert_error source) w =
     (source, w\<lparr>stdout := stdout w @ [Message ''Connecting to couchbase...'']\<rparr>)"
  "print_out (store_env embed_fn ids upsert_error source) p w = w\<lparr>stdout := stdout w @ [p]\<rparr>"
  by (simp_all add: store_env_def)


lemma store_script_fails:
  assumes "map (embedded_row embed_fn model) rows1 = map Inr docs1"
    and "\<forall>i<length docs1. upsert_error (ids (uuids_drawn w + i)) (docs1 ! i) = None"
    and "embedded_row embed_fn model row = Inl e
     \<or> (\<exists>doc. embedded_row embed_fn model row = Inr doc
            \<and> upsert_error (ids (uuids_drawn w + length rows1)) doc = Some e)"
  shows "collection (ingest_script
            (store_env embed_fn ids upsert_error (Inr (rows1 @ row # rows2))) model w) =
           AList.updates (map ids [uuids_drawn w..<uuids_drawn w + length rows1]) docs1 (collection w)
         \<and> stdout (ingest_script
            (store_env embed_fn ids upsert_error (Inr (rows1 @ row # rows2))) model w) =
           stdout w @ [Message ''Connecting to couchbase...'', Message ''Ingesting Data...'',
                       ErrorMessage ''Error while ingesting data'' e]
         \<and> ingest_script (store_env embed_fn ids upsert_error (Inr (rows1 @ row # rows2))) model w =
           ingest_script (store_env embed_fn ids upsert_error (Inr (rows1 @ [row]))) model w"
proof -
  let ?env = "\<lambda>source. store_env embed_fn ids upsert_error (Inr source)"
  let ?w = "w\<lparr>stdout := stdout w @ [Message ''Connecting to couchbase...'',
                                       Message ''Ingesting Data...'']\<rparr>"
  have "\<forall>i<length docs1. upsert_error (ids (uuids_drawn ?w + i)) (docs1 ! i) = None"
    using assms(2) by simp
  from store_ingest_rows_ok [where upsert_error = upsert_error and ids = ids and w = ?w
      and source = "Inr (rows1 @ row # rows2)", OF assms(1) this]
  obtain w1 where before: "ingest_rows (?env (rows1 @ row # rows2)) model rows1 ?w = (Inr (), w1)"
    and c1: "collection w1 =
      AList.updates (map ids [uuids_drawn w..<uuids_drawn w + length rows1]) docs1 (collection w)"
    and d1: "uuids_drawn w1 = uuids_drawn w + length rows1"
    and s1: "stdout w1 = stdout w @ [Message ''Connecting to couchbase...'', Message ''Ingesting Data...'']"
    by auto
  have "embedded_row embed_fn model row = Inl e
     \<or> (\<exists>doc. embedded_row embed_fn model row = Inr doc
            \<and> upsert_error (ids (uuids_drawn w1)) doc = Some e)"
    using assms(3) by (simp add: d1)
  from store_ingest_row_fails [where upsert_error = upsert_error and ids = ids and w = w1
      and source = "Inr (rows1 @ row # rows2)", OF this]
  obtain w2 where failing: "ingest_row (?env (rows1 @ row # rows2)) model row w1 = (Inl e, w2)"
    and c2: "collection w2 = collection w1"
    and s2: "stdout w2 = stdout w1"
    by blast
  have run: "ingest_rows (?env (rows1 @ row # rows2)) model (rows1 @ row # rows2) ?w = (Inl e, w2)"
    using before failing by (rule ingest_rows_stops)
  have "ingest_rows (?env (rows1 @ [row])) model rows1 ?w = (Inr (), w1)"
    using before
    by (simp only: store_ingest_rows_source [of embed_fn ids upsert_error "Inr (rows1 @ [row])"
          model rows1 _ "Inr (rows1 @ row # rows2)"])
  moreover have "ingest_row (?env (rows1 @ [row])) model row w1 = (Inl e, w2)"
    using failing
    by (simp only: store_ingest_row_source [of embed_fn ids upsert_error "Inr (rows1 @ [row])"
          model row _ "Inr (rows1 @ row # rows2)"])
  ultimately have run': "ingest_rows (?env (rows1 @ [row])) model (rows1 @ [row]) ?w = (Inl e, w2)"
    by (rule ingest_rows_stops)
  have a: "ingest_script (?env (rows1 @ row # rows2)) model w =
      w2\<lparr>stdout := stdout w2 @ [ErrorMessage ''Error while ingesting data'' e]\<rparr>"
    by (simp add: ingest_script_def store_script_start run)
  have b: "ingest_script (?env (rows1 @ [row])) model w =
      w2\<lparr>stdout := stdout w2 @ [ErrorMessage ''Error while ingesting data'' e]\<rparr>"
    by (simp add: ingest_script_def store_script_start run')
  show ?thesis
    by (simp add: a b c1 c2 s1 s2)
qed









lemmas run_defs = ingest_script_def store_env_def ingest_row_def generate_embeddings_def
  getitem_def setitem_def subscript_def ingest_embedding_model_def

lemmas row_defs = embedded_row_def getitem_def setitem_def subscript_def

text \<open>
  Claim C6, as stated, fails: of five rows whose third fails at the embedding, the first
  two are stored, the fourth and the fifth are never sent to the embedding service or to
  the store, and the script prints one error and ends. Two rows succeeded, not four.
\<close>

theorem ingest_row_three_fails_counterexample:
  "ingest_script
     (store_env
        (\<lambda>input_data model.
           if input_data = PStr ''three'' then Inl (EmbeddingServiceError ''rate limit'')
           else Inr [PList [PFloat 1]])
        (\<lambda>n. CHR ''u'' # replicate n (CHR ''0''))
        (\<lambda>doc_id doc. None)
        (Inr [[(''Overview'', PStr ''one'')], [(''Overview'', PStr ''two'')],
              [(''Overview'', PStr ''three'')], [(''Overview'', PStr ''four'')],
              [(''Overview'', PStr ''five'')]]))
     (ingest_embedding_model None)
     \<lparr>collection = [], uuids_drawn = 0, stdout = [], embedded_inputs = []\<rparr> =
   \<lparr>collection = [(''u'', [(''Overview'', PStr ''one''), (''Overview_embedding'', PList [PFloat 1])]), (''u0'', [(''Overview'', PStr ''two''), (''Overview_embedding'', PList [PFloat 1])])],
    uuids_drawn = 2,
    stdout = [Message ''Connecting to couchbase...'', Message ''Ingesting Data...'',
              ErrorMessage ''Error while ingesting data'' (EmbeddingServiceError ''rate limit'')],
    embedded_inputs = [PStr ''one'', PStr ''two'', PStr ''three'']\<rparr>"
  by (simp add: run_defs)

text \<open>
  Claim C6, amended. In every environment: when the rows before a row are ingested and
  that row fails, the loop ends there with the row's exception, whatever rows follow; the
  world is the one the failing step left, and the script's handler prints the exception
  instead of raising. In the reference environment, where a refused write stores nothing:
  when the rows before a row succeed and that row fails, at the embedding or at the
  upsert, the collection after the script is the collection before it with the upserts of
  the rows before the failing one and no other; the output is the two messages and the
  one error; and the script leaves the world it would leave if no row followed the
  failing one. No report is made.
\<close>

theorem ingest_stops_at_first_failure:
  "(load_data env w0 = (Inr (rows1 @ row # rows2), w)
    \<and> ingest_rows env model rows1 (print_out env (Message ''Ingesting Data...'') w) = (Inr (), w1)
    \<and> ingest_row env model row w1 = (Inl e, w2) \<longrightarrow>
      ingest_rows env model (rows1 @ row # rows2) (print_out env (Message ''Ingesting Data...'') w)
        = (Inl e, w2)
      \<and> ingest_script env model w0 =
          print_out env (ErrorMessage ''Error while ingesting data'' e) w2)
   \<and> (map (embedded_row embed_fn model) rows1 = map Inr docs1
       \<and> (\<forall>i<length docs1. upsert_error (ids (uuids_drawn sw + i)) (docs1 ! i) = None)
       \<and> (embedded_row embed_fn model row = Inl e
           \<or> (\<exists>doc. embedded_row embed_fn model row = Inr doc
                  \<and> upsert_error (ids (uuids_drawn sw + length rows1)) doc = Some e)) \<longrightarrow>
      collection (ingest_script
          (store_env embed_fn ids upsert_error (Inr (rows1 @ row # rows2))) model sw) =
        AList.updates (map ids [uuids_drawn sw..<uuids_drawn sw + length rows1]) docs1
          (collection sw)
      \<and> stdout (ingest_script
          (store_env embed_fn ids upsert_error (Inr (rows1 @ row # rows2))) model sw) =
        stdout sw @ [Message ''Connecting to couchbase...'', Message ''Ingesting Data...'',
                     ErrorMessage ''Error while ingesting data'' e]
      \<and> ingest_script (store_env embed_fn ids upsert_error (Inr (rows1 @ row # rows2))) model sw =
        ingest_script (store_env embed_fn ids upsert_error (Inr (rows1 @ [row]))) model sw)"
proof (intro conjI impI)
  assume h: "load_data env w0 = (Inr (rows1 @ row # rows2), w)
    \<and> ingest_rows env model rows1 (print_out env (Message ''Ingesting Data...'') w) = (Inr (), w1)
    \<and> ingest_row env model row w1 = (Inl e, w2)"
  then show run: "ingest_rows env model (rows1 @ row # rows2)
      (print_out env (Message ''Ingesting Data...'') w) = (Inl e, w2)"
    by (simp add: ingest_rows_stops)
  from h run show "ingest_script env model w0 =
      print_out env (ErrorMessage ''Error while ingesting data'' e) w2"
    by (simp add: ingest_script_def)
next
  assume h: "map (embedded_row embed_fn model) rows1 = map Inr docs1
       \<and> (\<forall>i<length docs1. upsert_error (ids (uuids_drawn sw + i)) (docs1 ! i) = None)
       \<and> (embedded_row embed_fn model row = Inl e
           \<or> (\<exists>doc. embedded_row embed_fn model row = Inr doc
                  \<and> upsert_error (ids (uuids_drawn sw + length rows1)) doc = Some e))"
  then have 1: "map (embedded_row embed_fn model) rows1 = map Inr docs1"
    and 2: "\<forall>i<length docs1. upsert_error (ids (uuids_drawn sw + i)) (docs1 ! i) = None"
    and 3: "embedded_row embed_fn model row = Inl e
           \<or> (\<exists>doc. embedded_row embed_fn model row = Inr doc
                  \<and> upsert_error (ids (uuids_drawn sw + length rows1)) doc = Some e)"
    by blast+
  note r = store_script_fails [where upsert_error = upsert_error and ids = ids and w = sw
      and ?rows2.0 = rows2, OF 1 2 3]
  from r show "collection (ingest_script
          (store_env embed_fn ids upsert_error (Inr (rows1 @ row # rows2))) model sw) =
        AList.updates (map ids [uuids_drawn sw..<uuids_drawn sw + length rows1]) docs1
          (collection sw)"
    by blast
  from r show "stdout (ingest_script
          (store_env embed_fn ids upsert_error (Inr (rows1 @ row # rows2))) model sw) =
        stdout sw @ [Message ''Connecting to couchbase...'', Message ''Ingesting Data...'',
                     ErrorMessage ''Error while ingesting data'' e]"
    by blast
  from r show "ingest_script (store_env embed_fn ids upsert_error (Inr (rows1 @ row # rows2))) model sw =
        ingest_script (store_env embed_fn ids upsert_error (Inr (rows1 @ [row]))) model sw"
    by blast
qed

text \<open>
  Five rows, the third refused by the store; and three rows, the second failing at the
  embedding, ingested into a collection that already holds a document.
\<close>

theorem ingest_stops_at_first_failure_witness:
  "ingest_script
     (store_env (\<lambda>input_data model. Inr [PList [PFloat 1]]) (\<lambda>n. CHR ''u'' # replicate n (CHR ''0''))
        (\<lambda>doc_id doc. if doc_id = ''u00'' then Some (StoreWriteError ''timeout'') else None)
        (Inr [[(''Overview'', PStr ''one'')], [(''Overview'', PStr ''two'')],
              [(''Overview'', PStr ''three'')], [(''Overview'', PStr ''four'')],
              [(''Overview'', PStr ''five'')]]))
     ''text-embedding-3-small''
     \<lparr>collection = [], uuids_drawn = 0, stdout = [], embedded_inputs = []\<rparr> =
   \<lparr>collection = [(''u'', [(''Overview'', PStr ''one''), (''Overview_embedding'', PList [PFloat 1])]), (''u0'', [(''Overview'', PStr ''two''), (''Overview_embedding'', PList [PFloat 1])])],
    uuids_drawn = 3,
    stdout = [Message ''Connecting to couchbase...'', Message ''Ingesting Data...'',
              ErrorMessage ''Error while ingesting data'' (StoreWriteError ''timeout'')],
    embedded_inputs = [PStr ''one'', PStr ''two'', PStr ''three'']\<rparr>
   \<and> collection (ingest_script
       (store_env (\<lambda>input_data model.
           if input_data = PStr ''two'' then Inl (EmbeddingServiceError ''rate limit'')
           else Inr [PList [PFloat 1]]) (\<lambda>n. CHR ''u'' # replicate n (CHR ''0'')) (\<lambda>doc_id doc. None)
          (Inr ([[(''Overview'', PStr ''one'')]] @ [(''Overview'', PStr ''two'')] # [[(''Overview'', PStr ''three'')]])))
       ''text-embedding-3-small''
       \<lparr>collection = [(''u'', [(''Overview'', PStr ''zero''), (''Overview_embedding'', PList [PFloat 1])])], uuids_drawn = 1, stdout = [], embedded_inputs = []\<rparr>) =
     [(''u'', [(''Overview'', PStr ''zero''), (''Overview_embedding'', PList [PFloat 1])]), (''u0'', [(''Overview'', PStr ''one''), (''Overview_embedding'', PList [PFloat 1])])]
   \<and> stdout (ingest_script
       (store_env (\<lambda>input_data model.
           if input_data = PStr ''two'' then Inl (EmbeddingServiceError ''rate limit'')
           else Inr [PList [PFloat 1]]) (\<lambda>n. CHR ''u'' # replicate n (CHR ''0'')) (\<lambda>doc_id doc. None)
          (Inr ([[(''Overview'', PStr ''one'')]] @ [(''Overview'', PStr ''two'')] # [[(''Overview'', PStr ''three'')]])))
       ''text-embedding-3-small''
       \<lparr>collection = [(''u'', [(''Overview'', PStr ''zero''), (''Overview_embedding'', PList [PFloat 1])])], uuids_drawn = 1, stdout = [], embedded_inputs = []\<rparr>) =
     [Message ''Connecting to couchbase...'', Message ''Ingesting Data...'',
      ErrorMessage ''Error while ingesting data'' (EmbeddingServiceError ''rate limit'')]"
proof -
  let ?env = "store_env (\<lambda>input_data model. Inr [PList [PFloat 1]]) (\<lambda>n. CHR ''u'' # replicate n (CHR ''0''))
        (\<lambda>doc_id doc. if doc_id = ''u00'' then Some (StoreWriteError ''timeout'') else None)
        (Inr [[(''Overview'', PStr ''one'')], [(''Overview'', PStr ''two'')],
              [(''Overview'', PStr ''three'')], [(''Overview'', PStr ''four'')],
              [(''Overview'', PStr ''five'')]])"
  let ?w0 = "\<lparr>collection = [], uuids_drawn = 0, stdout = [], embedded_inputs = []\<rparr>"
  let ?wc = "\<lparr>collection = [], uuids_drawn = 0,
    stdout = [Message ''Connecting to couchbase...''], embedded_inputs = []\<rparr>"
  let ?w1 = "\<lparr>collection = [(''u'', [(''Overview'', PStr ''one''), (''Overview_embedding'', PList [PFloat 1])]), (''u0'', [(''Overview'', PStr ''two''), (''Overview_embedding'', PList [PFloat 1])])],
    uuids_drawn = 2,
    stdout = [Message ''Connecting to couchbase...'', Message ''Ingesting Data...''],
    embedded_inputs = [PStr ''one'', PStr ''two'']\<rparr>"
  let ?w2 = "\<lparr>collection = [(''u'', [(''Overview'', PStr ''one''), (''Overview_embedding'', PList [PFloat 1])]), (''u0'', [(''Overview'', PStr ''two''), (''Overview_embedding'', PList [PFloat 1])])],
    uuids_drawn = 3,
    stdout = [Message ''Connecting to couchbase...'', Message ''Ingesting Data...''],
    embedded_inputs = [PStr ''one'', PStr ''two'', PStr ''three'']\<rparr>"
  have first: "load_data ?env ?w0 =
      (Inr ([[(''Overview'', PStr ''one'')], [(''Overview'', PStr ''two'')]] @ [(''Overview'', PStr ''three'')] # [[(''Overview'', PStr ''four'')], [(''Overview'', PStr ''five'')]]), ?wc)
    \<and> ingest_rows ?env ''text-embedding-3-small'' [[(''Overview'', PStr ''one'')], [(''Overview'', PStr ''two'')]]
        (print_out ?env (Message ''Ingesting Data...'') ?wc) = (Inr (), ?w1)
    \<and> ingest_row ?env ''text-embedding-3-small'' [(''Overview'', PStr ''three'')] ?w1 = (Inl (StoreWriteError ''timeout''), ?w2)"
    by (simp add: run_defs eval_nat_numeral)
  have generic: "ingest_script ?env ''text-embedding-3-small'' ?w0 =
      print_out ?env (ErrorMessage ''Error while ingesting data'' (StoreWriteError ''timeout'')) ?w2"
    using conjunct1 [OF ingest_stops_at_first_failure, THEN mp, OF first] by (rule conjunct2)
  have second: "map (embedded_row (\<lambda>input_data model.
           if input_data = PStr ''two'' then Inl (EmbeddingServiceError ''rate limit'')
           else Inr [PList [PFloat 1]]) ''text-embedding-3-small'') [[(''Overview'', PStr ''one'')]] = map Inr [[(''Overview'', PStr ''one''), (''Overview_embedding'', PList [PFloat 1])]]
    \<and> (\<forall>i<length [[(''Overview'', PStr ''one''), (''Overview_embedding'', PList [PFloat 1])]]. (\<lambda>doc_id doc. None) ((\<lambda>n. CHR ''u'' # replicate n (CHR ''0'')) (uuids_drawn \<lparr>collection = [(''u'', [(''Overview'', PStr ''zero''), (''Overview_embedding'', PList [PFloat 1])])], uuids_drawn = 1, stdout = [], embedded_inputs = []\<rparr> + i)) ([[(''Overview'', PStr ''one''), (''Overview_embedding'', PList [PFloat 1])]] ! i) = None)
    \<and> (embedded_row (\<lambda>input_data model.
           if input_data = PStr ''two'' then Inl (EmbeddingServiceError ''rate limit'')
           else Inr [PList [PFloat 1]]) ''text-embedding-3-small'' [(''Overview'', PStr ''two'')] = Inl (EmbeddingServiceError ''rate limit'')
        \<or> (\<exists>doc. embedded_row (\<lambda>input_data model.
           if input_data = PStr ''two'' then Inl (EmbeddingServiceError ''rate limit'')
           else Inr [PList [PFloat 1]]) ''text-embedding-3-small'' [(''Overview'', PStr ''two'')] = Inr doc
              \<and> (\<lambda>doc_id doc. None) ((\<lambda>n. CHR ''u'' # replicate n (CHR ''0'')) (uuids_drawn \<lparr>collection = [(''u'', [(''Overview'', PStr ''zero''), (''Overview_embedding'', PList [PFloat 1])])], uuids_drawn = 1, stdout = [], embedded_inputs = []\<rparr> + length [[(''Overview'', PStr ''one'')]])) doc = Some (EmbeddingServiceError ''rate limit'')))"
    by (simp add: row_defs)
  note stored = conjunct2 [OF ingest_stops_at_first_failure [where ?rows2.0 = "[[(''Overview'', PStr ''three'')]]" and ids = "(\<lambda>n. CHR ''u'' # replicate n (CHR ''0''))"
      and sw = "\<lparr>collection = [(''u'', [(''Overview'', PStr ''zero''), (''Overview_embedding'', PList [PFloat 1])])], uuids_drawn = 1, stdout = [], embedded_inputs = []\<rparr>"],
    THEN mp, OF second]
  from generic stored [THEN conjunct1] stored [THEN conjunct2, THEN conjunct1] show ?thesis
    by (simp add: store_script_start)
qed





end
